theory Spec2Isabelle
  imports Complex_Main
begin

section \<open>Exceptions\<close>

text \<open>
  Every \<^verbatim>\<open>raise\<close> and failing \<^verbatim>\<open>assert\<close> of the two source files is a value of
  this type. \<open>InvalidExampleError\<close> and \<open>ConfigurationError\<close> are the spec's names for
  the failures of the batching helpers; \<open>OSError\<close> and \<open>ExternalError\<close> stand for what
  the file system and the external collaborators of the script may raise.
\<close>

datatype error =
    KeyError string
  | TypeError string
  | AssertionError string
  | InvalidExampleError nat "nat list"
  | ConfigurationError
  | ZeroDivisionError
  | IndexError
  | NotImplementedError
  | AttributeError string
  | OSError string
  | ExternalError string

section \<open>Datasets and the task (fairseq/tasks/fairseq\_task.py)\<close>

text \<open>
  The capability interface of a dataset: \<open>ordered_indices\<close>, \<open>size\<close> (one entry
  per axis), \<open>num_tokens\<close> and \<open>collater\<close>. Sizes are non-negative, indices are
  natural numbers. A collated batch (\<open>samples\<close>) carries the ids of its examples and
  the network input; tensors are values of the type parameter.
\<close>

record 't samples =
  sample_id :: "nat list"
  net_input :: 't

record 't fairseq_dataset =
  ordered_indices :: "int \<Rightarrow> nat list"
  size_fn :: "nat \<Rightarrow> nat list"
  num_tokens :: "nat \<Rightarrow> nat"
  collater :: "nat list \<Rightarrow> 't samples"
  src_dict_encode_line :: "string \<Rightarrow> 't"

text \<open>
  A Python object stored in \<open>self.datasets\<close>: either an instance of
  \<open>FairseqDataset\<close> or something else, which is what \<open>isinstance\<close> tests.
\<close>

datatype 't pyobj = FairseqDataset "'t fairseq_dataset" | OtherObject

subsection \<open>The batching helpers of data\_utils and iterators\<close>

text \<open>
  Modelled from the spec: \<open>data_utils.filter_by_size\<close> (the Validity Filter, spec 4.1)
  is called by \<open>get_batch_iterator\<close> and is not among the source files. A size is within
  the limit when it is within it on every axis; with no limit the input is returned
  unchanged; in strict mode the first violating index of the scan is reported with its
  size and nothing else is returned; otherwise the violating indices are dropped.
\<close>

definition within_limit :: "nat list \<Rightarrow> nat list \<Rightarrow> bool" where
  "within_limit sz limits = list_all (\<lambda>(s, l). s \<le> l) (zip sz limits)"

definition filter_by_size ::
  "nat list \<Rightarrow> (nat \<Rightarrow> nat list) \<Rightarrow> nat list option \<Rightarrow> bool \<Rightarrow> error + nat list" where
  "filter_by_size indices sizes max_positions raise_exception =
     (case max_positions of
        None \<Rightarrow> Inr indices
      | Some limits \<Rightarrow>
          (if raise_exception then
             (case find (\<lambda>i. \<not> within_limit (sizes i) limits) indices of
                Some i \<Rightarrow> Inl (InvalidExampleError i (sizes i))
              | None \<Rightarrow> Inr (filter (\<lambda>i. within_limit (sizes i) limits) indices))
           else Inr (filter (\<lambda>i. within_limit (sizes i) limits) indices)))"

text \<open>
  Modelled from the spec: \<open>data_utils.batch_by_size\<close> (the Batch Packer, spec 4.2) is
  called by \<open>get_batch_iterator\<close> and is not among the source files. The scan keeps an
  open batch and the largest size seen in it. A candidate whose token cost
  \<open>max running_max size * (length + 1)\<close> exceeds \<open>max_tokens\<close>, or which would make the
  length exceed \<open>max_sentences\<close>, closes a non-empty open batch and starts the next one.
  With a required multiple above one a batch is only closed at a multiple of it: the
  longest prefix of such a length is closed and the rest, the overflow, is carried into
  the next batch; while the open batch is shorter than the multiple nothing is closed
  and the candidate is absorbed. The batch left open at the end of the scan is emitted
  as it is.
\<close>

fun exceeds :: "nat option \<Rightarrow> nat \<Rightarrow> bool" where
  "exceeds None v = False"
| "exceeds (Some b) v = (b < v)"

primrec max_size :: "(nat \<Rightarrow> nat) \<Rightarrow> nat list \<Rightarrow> nat" where
  "max_size num_tokens_fn [] = 0"
| "max_size num_tokens_fn (i # is) = max (num_tokens_fn i) (max_size num_tokens_fn is)"

definition token_cost :: "(nat \<Rightarrow> nat) \<Rightarrow> nat list \<Rightarrow> nat" where
  "token_cost num_tokens_fn batch = max_size num_tokens_fn batch * length batch"

fun pack ::
  "(nat \<Rightarrow> nat) \<Rightarrow> nat option \<Rightarrow> nat option \<Rightarrow> nat \<Rightarrow> nat list \<Rightarrow> nat \<Rightarrow> nat list
     \<Rightarrow> nat list list" where
  "pack num_tokens_fn max_tokens max_sentences bsz_mult batch running_max [] =
     (if batch = [] then [] else [batch])"
| "pack num_tokens_fn max_tokens max_sentences bsz_mult batch running_max (c # cs) =
     (let cost = max running_max (num_tokens_fn c) * (length batch + 1);
          full = (exceeds max_tokens cost \<or> exceeds max_sentences (length batch + 1))
      in if full \<and> batch \<noteq> [] then
           (if bsz_mult \<le> 1 \<or> length batch mod bsz_mult = 0 then
              batch # pack num_tokens_fn max_tokens max_sentences bsz_mult
                        [c] (num_tokens_fn c) cs
            else if length batch < bsz_mult then
              pack num_tokens_fn max_tokens max_sentences bsz_mult
                (batch @ [c]) (max running_max (num_tokens_fn c)) cs
            else
              (let k = bsz_mult * (length batch div bsz_mult);
                   overflow = drop k batch
               in take k batch # pack num_tokens_fn max_tokens max_sentences bsz_mult
                                   (overflow @ [c])
                                   (max (max_size num_tokens_fn overflow) (num_tokens_fn c)) cs))
         else
           pack num_tokens_fn max_tokens max_sentences bsz_mult
             (batch @ [c]) (max running_max (num_tokens_fn c)) cs)"

definition batch_by_size ::
  "nat list \<Rightarrow> (nat \<Rightarrow> nat) \<Rightarrow> nat option \<Rightarrow> nat option \<Rightarrow> nat \<Rightarrow> nat list list" where
  "batch_by_size indices num_tokens_fn max_tokens max_sentences required_batch_size_multiple =
     pack num_tokens_fn max_tokens max_sentences required_batch_size_multiple [] 0 indices"

text \<open>
  Modelled from the spec: the budget test of the spec's property ``Budget respect''
  (spec 8). A batch is over budget when its token cost exceeds \<open>max_tokens\<close> or its
  length exceeds \<open>max_sentences\<close>, each when set.
\<close>

definition over_budget ::
  "(nat \<Rightarrow> nat) \<Rightarrow> nat option \<Rightarrow> nat option \<Rightarrow> nat list \<Rightarrow> bool" where
  "over_budget num_tokens_fn max_tokens max_sentences batch =
     (exceeds max_tokens (token_cost num_tokens_fn batch)
      \<or> exceeds max_sentences (length batch))"

text \<open>
  Modelled from the spec: \<open>iterators.EpochBatchIterator\<close> (spec 4.3 and 4.4) is
  constructed by \<open>get_batch_iterator\<close> and is not among the source files. The object
  keeps the Global Batch List and the shard configuration. The Shard Partitioner is the
  position-based round-robin of the spec's scenario (five batches on two shards: shard 0
  gets positions 0, 2, 4 and shard 1 gets 1, 3); a shard id outside \<open>[0, num_shards)\<close>
  is a \<open>ConfigurationError\<close>. An unshuffled epoch traverses the shard's batches in
  their original order and collates each of them.
\<close>

record 't epoch_batch_iterator =
  collate_fn :: "nat list \<Rightarrow> 't samples"
  frozen_batches :: "nat list list"
  it_seed :: int
  it_num_shards :: nat
  it_shard_id :: nat

definition shard_positions :: "nat \<Rightarrow> nat \<Rightarrow> nat \<Rightarrow> nat list" where
  "shard_positions n num_shards shard_id =
     filter (\<lambda>p. p mod num_shards = shard_id) [0..<n]"

definition shard_batches :: "'a list \<Rightarrow> nat \<Rightarrow> nat \<Rightarrow> 'a list" where
  "shard_batches batches num_shards shard_id =
     map (\<lambda>p. batches ! p) (shard_positions (length batches) num_shards shard_id)"

definition shard_partition :: "'a list \<Rightarrow> nat \<Rightarrow> nat \<Rightarrow> error + 'a list" where
  "shard_partition batches num_shards shard_id =
     (if num_shards \<le> shard_id then Inl ConfigurationError
      else Inr (shard_batches batches num_shards shard_id))"

definition next_epoch_itr_unshuffled :: "'t epoch_batch_iterator \<Rightarrow> error + 't samples list" where
  "next_epoch_itr_unshuffled itr =
     (case shard_partition (frozen_batches itr) (it_num_shards itr) (it_shard_id itr) of
        Inl e \<Rightarrow> Inl e
      | Inr batches \<Rightarrow> Inr (map (collate_fn itr) batches))"

subsection \<open>FairseqTask\<close>

text \<open>
  \<open>get_batch_iterator\<close> as the source has it (lines 42 to 97): the assertion on the
  dataset, the ordered indices under the seed, the size filter with
  \<open>raise_exception = (not ignore_invalid_inputs)\<close>, the packer, and the iterator
  built from the batch sampler.
\<close>

definition get_batch_iterator ::
  "'t pyobj \<Rightarrow> nat option \<Rightarrow> nat option \<Rightarrow> nat list option \<Rightarrow> bool \<Rightarrow> nat \<Rightarrow> int \<Rightarrow> nat \<Rightarrow> nat
     \<Rightarrow> error + 't epoch_batch_iterator" where
  "get_batch_iterator dataset max_tokens max_sentences max_positions ignore_invalid_inputs
       required_batch_size_multiple seed num_shards shard_id =
     (case dataset of
        OtherObject \<Rightarrow> Inl (AssertionError [])
      | FairseqDataset ds \<Rightarrow>
          (let indices = ordered_indices ds seed in
           case filter_by_size indices (size_fn ds) max_positions (\<not> ignore_invalid_inputs) of
             Inl e \<Rightarrow> Inl e
           | Inr indices' \<Rightarrow>
               (let batch_sampler =
                      batch_by_size indices' (num_tokens ds) max_tokens max_sentences
                        required_batch_size_multiple
                in Inr \<lparr>collate_fn = collater ds, frozen_batches = batch_sampler,
                        it_seed = seed, it_num_shards = num_shards,
                        it_shard_id = shard_id\<rparr>)))"

text \<open>
  The keyword names \<open>get_batch_iterator\<close> declares after \<open>self\<close> (lines 42 to 46).
  The function has no \<^verbatim>\<open>**kwargs\<close>, so Python binds a call's keywords against exactly
  these names and raises \<open>TypeError\<close> at the first keyword that is not one of them.
\<close>

definition get_batch_iterator_parameters :: "string list" where
  "get_batch_iterator_parameters =
     [''dataset'', ''max_tokens'', ''max_sentences'', ''max_positions'',
      ''ignore_invalid_inputs'', ''required_batch_size_multiple'', ''seed'',
      ''num_shards'', ''shard_id'']"

definition bind_keywords :: "string \<Rightarrow> string list \<Rightarrow> string list \<Rightarrow> error + unit" where
  "bind_keywords fname parameters keywords =
     (case find (\<lambda>k. k \<notin> set parameters) keywords of
        Some k \<Rightarrow> Inl (TypeError (fname @ ''() got an unexpected keyword argument '' @ k))
      | None \<Rightarrow> Inr ())"

text \<open>
  A task object: the \<open>datasets\<close> dictionary of the instance, and the methods its class
  provides for \<open>get_batch_iterator\<close> (the declared keyword names and the body) and
  \<open>max_positions\<close>. A call passes the keyword values in one record.
\<close>

record 't gbi_keywords =
  kw_dataset :: "'t pyobj"
  kw_max_tokens :: "nat option"
  kw_max_sentences :: "nat option"
  kw_max_positions :: "nat list option"
  kw_ignore_invalid_inputs :: bool
  kw_required_batch_size_multiple :: nat
  kw_seed :: int
  kw_num_shards :: nat
  kw_shard_id :: nat
  kw_num_workers :: nat
  kw_data_buffer_size :: nat

record 't task =
  datasets :: "string \<rightharpoonup> 't pyobj"
  gbi_parameters :: "string list"
  gbi_body :: "'t gbi_keywords \<Rightarrow> error + 't epoch_batch_iterator"
  task_max_positions :: "nat list option"

definition FairseqTask_get_batch_iterator ::
  "'t gbi_keywords \<Rightarrow> error + 't epoch_batch_iterator" where
  "FairseqTask_get_batch_iterator kw =
     get_batch_iterator (kw_dataset kw) (kw_max_tokens kw) (kw_max_sentences kw)
       (kw_max_positions kw) (kw_ignore_invalid_inputs kw)
       (kw_required_batch_size_multiple kw) (kw_seed kw) (kw_num_shards kw) (kw_shard_id kw)"

text \<open>
  An instance of the base class \<open>FairseqTask\<close> (\<open>__init__\<close>, line 22, leaves
  \<open>datasets\<close> empty; \<open>max_positions\<close>, line 110, returns \<open>None\<close>), with the given
  dictionary of loaded splits.
\<close>

definition FairseqTask :: "(string \<rightharpoonup> 't pyobj) \<Rightarrow> 't task" where
  "FairseqTask loaded =
     \<lparr>datasets = loaded,
      gbi_parameters = get_batch_iterator_parameters,
      gbi_body = FairseqTask_get_batch_iterator,
      task_max_positions = None\<rparr>"

text \<open>\<open>FairseqTask.dataset\<close> (lines 33 to 40).\<close>

definition dataset :: "'t task \<Rightarrow> string \<Rightarrow> error + 't pyobj" where
  "dataset self split =
     (case datasets self split of
        None \<Rightarrow> Inl (KeyError (''Dataset not loaded: '' @ split))
      | Some d \<Rightarrow>
          (case d of
             OtherObject \<Rightarrow>
               Inl (TypeError ''Datasets are expected to be of type FairseqDataset'')
           | FairseqDataset _ \<Rightarrow> Inr d))"

section \<open>The scoring script (entity\_retrieval\_scores.py)\<close>

text \<open>
  The parsed arguments the script reads. The argument parser is an external
  collaborator; the record has one field for every attribute of \<open>args\<close> that decides
  the control flow or is passed to \<open>get_batch_iterator\<close>.
\<close>

record args =
  args_path :: "string option"
  args_results_path :: "string option"
  args_max_tokens :: "nat option"
  args_max_sentences :: "nat option"
  args_batch_size :: "nat option"
  args_gen_subset :: string
  args_list_candidates :: string
  args_skip_invalid_size_inputs_valid_test :: bool
  args_required_batch_size_multiple :: nat
  args_seed :: int
  args_distributed_world_size :: nat
  args_distributed_rank :: nat
  args_num_workers :: nat
  args_data_buffer_size :: nat
  args_cpu :: bool
  args_scores_activation_function :: "string option"

text \<open>
  A model of the ensemble: the speech encoder, the text encoder and the retrieval
  network (which returns one score per example of the batch), and \<open>max_positions\<close>.
\<close>

record 't model =
  spch_encoder :: "'t \<Rightarrow> 't"
  text_encoder :: "'t \<Rightarrow> 't"
  retrieval_network :: "'t \<Rightarrow> nat \<Rightarrow> 't \<Rightarrow> 't list"
  model_max_positions :: "nat list option"

text \<open>
  The state of the Python process the script runs in: the files, which paths can be
  opened for writing, and the module-level dictionary \<open>TEXT_CACHE\<close> (line 19).
\<close>

datatype 't file_content = TextFile "string list" | PickleFile "nat \<rightharpoonup> 't list"

record 't process =
  files :: "string \<rightharpoonup> 't file_content"
  writable :: "string \<Rightarrow> bool"
  TEXT_CACHE :: "string \<rightharpoonup> 't"

text \<open>
  The external collaborators of \<open>_main\<close>: CUDA availability, the task registry and the
  task's \<open>load_dataset\<close>, checkpoint loading, \<open>utils.resolve_max_positions\<close>, the
  functions of \<open>torch\<close> by name, and the time the stopwatch has summed up at the end.
\<close>

record 't env =
  cuda_is_available :: bool
  setup_task :: "args \<Rightarrow> error + 't task"
  load_dataset :: "'t task \<Rightarrow> string \<Rightarrow> error + 't task"
  load_model_ensemble :: "args \<Rightarrow> 't task \<Rightarrow> error + 't model list"
  resolve_max_positions :: "nat list option list \<Rightarrow> nat list option"
  torch_function :: "string \<rightharpoonup> ('t \<Rightarrow> 't)"
  gen_timer_sum :: real

subsection \<open>generate\_scores (lines 22 to 59)\<close>

text \<open>
  The inner loop (lines 54 to 58): every pair of an example id and its score appends the
  activated score to the list of that id.
\<close>

fun add_scores ::
  "('t \<Rightarrow> 't) \<Rightarrow> (nat \<rightharpoonup> 't list) \<Rightarrow> (nat \<times> 't) list \<Rightarrow> (nat \<rightharpoonup> 't list)" where
  "add_scores act scores [] = scores"
| "add_scores act scores ((i, score) # rest) =
     add_scores act
       (scores(i \<mapsto> (case scores i of None \<Rightarrow> [] | Some l \<Rightarrow> l) @ [act score])) rest"

text \<open>
  The loop over the candidates (lines 28 to 58). A candidate found in \<open>TEXT_CACHE\<close>
  takes its text-encoder output from there (lines 29 and 30); otherwise the output is
  computed and stored under the candidate (lines 32 to 47). The dictionary is passed
  in and returned, since the source reads and writes the module-level object.
\<close>

fun score_candidates ::
  "'t model \<Rightarrow> (string \<Rightarrow> 't) \<Rightarrow> ('t \<Rightarrow> 't) \<Rightarrow> nat list \<Rightarrow> 't \<Rightarrow> string list
     \<Rightarrow> (nat \<rightharpoonup> 't list) \<Rightarrow> (string \<rightharpoonup> 't) \<Rightarrow> (nat \<rightharpoonup> 't list) \<times> (string \<rightharpoonup> 't)" where
  "score_candidates m encode_line act ids speech_encoder_outs [] scores cache =
     (scores, cache)"
| "score_candidates m encode_line act ids speech_encoder_outs (candidate # rest) scores cache =
     (let (text_encoder_outs, cache') =
            (case cache candidate of
               Some outs \<Rightarrow> (outs, cache)
             | None \<Rightarrow>
                 (let outs = text_encoder m (encode_line candidate)
                  in (outs, cache(candidate \<mapsto> outs))));
          batch_scores = retrieval_network m text_encoder_outs (length ids) speech_encoder_outs
      in score_candidates m encode_line act ids speech_encoder_outs rest
           (add_scores act scores (zip ids batch_scores)) cache')"

definition generate_scores ::
  "'t model \<Rightarrow> 't samples \<Rightarrow> string list \<Rightarrow> (string \<Rightarrow> 't) \<Rightarrow> bool \<Rightarrow> ('t \<Rightarrow> 't)
     \<Rightarrow> (string \<rightharpoonup> 't) \<Rightarrow> (nat \<rightharpoonup> 't list) \<times> (string \<rightharpoonup> 't)" where
  "generate_scores m smp candidate_list src_dict use_cuda scores_activation_function cache =
     score_candidates m src_dict scores_activation_function (sample_id smp)
       (spch_encoder m (net_input smp)) candidate_list Map.empty cache"

subsection \<open>\_main and main (lines 62 to 155)\<close>

text \<open>Lines 79 and 80: the default token budget.\<close>

definition default_max_tokens :: "args \<Rightarrow> args" where
  "default_max_tokens a =
     (if args_max_tokens a = None \<and> args_max_sentences a = None
      then a\<lparr>args_max_tokens := Some 12000\<rparr> else a)"

text \<open>
  Lines 91 and 92: the candidate list, one stripped line of the file each. \<open>str.strip()\<close>
  removes the characters for which \<open>str.isspace\<close> holds; among the code points below 256,
  which are the characters of type \<open>char\<close>, these are 0x09 to 0x0D, 0x1C to 0x1F, the space
  0x20, 0x85 and 0xA0.
\<close>

definition is_space :: "char \<Rightarrow> bool" where
  "is_space ch =
     (ch \<in> set [CHR 0x09, CHR 0x0A, CHR 0x0B, CHR 0x0C, CHR 0x0D, CHR 0x1C, CHR 0x1D, CHR 0x1E,
                CHR 0x1F, CHR '' '', CHR 0x85, CHR 0xA0])"

definition strip :: "string \<Rightarrow> string" where
  "strip s = rev (dropWhile is_space (rev (dropWhile is_space s)))"

definition read_candidates :: "'t process \<Rightarrow> string \<Rightarrow> error + string list" where
  "read_candidates proc file_name =
     (case files proc file_name of
        Some (TextFile ls) \<Rightarrow> Inr (map strip ls)
      | Some (PickleFile _) \<Rightarrow> Inl (OSError file_name)
      | None \<Rightarrow> Inl (OSError file_name))"

text \<open>
  Lines 113 to 127: the keywords of the call of \<open>task.get_batch_iterator\<close>, in the
  order the script writes them, and their values.
\<close>

definition script_call_keywords :: "string list" where
  "script_call_keywords =
     [''dataset'', ''max_tokens'', ''max_sentences'', ''max_positions'',
      ''ignore_invalid_inputs'', ''required_batch_size_multiple'', ''seed'',
      ''num_shards'', ''shard_id'', ''num_workers'', ''data_buffer_size'']"

definition script_call_values ::
  "'t env \<Rightarrow> args \<Rightarrow> 't task \<Rightarrow> 't pyobj \<Rightarrow> 't model list \<Rightarrow> 't gbi_keywords" where
  "script_call_values env a task ds models =
     \<lparr>kw_dataset = ds,
      kw_max_tokens = args_max_tokens a,
      kw_max_sentences = args_batch_size a,
      kw_max_positions =
        resolve_max_positions env (task_max_positions task # map model_max_positions models),
      kw_ignore_invalid_inputs = args_skip_invalid_size_inputs_valid_test a,
      kw_required_batch_size_multiple = args_required_batch_size_multiple a,
      kw_seed = args_seed a,
      kw_num_shards = args_distributed_world_size a,
      kw_shard_id = args_distributed_rank a,
      kw_num_workers = args_num_workers a,
      kw_data_buffer_size = args_data_buffer_size a\<rparr>"

definition call_get_batch_iterator ::
  "'t task \<Rightarrow> string list \<Rightarrow> 't gbi_keywords \<Rightarrow> error + 't epoch_batch_iterator" where
  "call_get_batch_iterator task keywords kw =
     (case bind_keywords ''get_batch_iterator'' (gbi_parameters task) keywords of
        Inl e \<Rightarrow> Inl e
      | Inr _ \<Rightarrow> gbi_body task kw)"

text \<open>Lines 135 to 139: the activation applied to every score.\<close>

definition activation :: "'t env \<Rightarrow> args \<Rightarrow> error + ('t \<Rightarrow> 't)" where
  "activation env a =
     (case args_scores_activation_function a of
        None \<Rightarrow> Inr (\<lambda>x. x)
      | Some name \<Rightarrow>
          (case torch_function env name of
             None \<Rightarrow> Inl (AttributeError name)
           | Some f \<Rightarrow> Inr f))"

text \<open>
  Lines 144 to 149: the loop over the batches. \<open>models[0]\<close> is read in every
  iteration; \<open>scores.update\<close> lets the scores of a later batch override.
\<close>

fun score_batches ::
  "'t model list \<Rightarrow> string list \<Rightarrow> (string \<Rightarrow> 't) \<Rightarrow> bool \<Rightarrow> ('t \<Rightarrow> 't) \<Rightarrow> 't samples list
     \<Rightarrow> (nat \<rightharpoonup> 't list) \<Rightarrow> (string \<rightharpoonup> 't)
     \<Rightarrow> error option \<times> (nat \<rightharpoonup> 't list) \<times> (string \<rightharpoonup> 't)" where
  "score_batches models candidate_list src_dict use_cuda act [] scores cache =
     (None, scores, cache)"
| "score_batches models candidate_list src_dict use_cuda act (smp # rest) scores cache =
     (case models of
        [] \<Rightarrow> (Some IndexError, scores, cache)
      | m # _ \<Rightarrow>
          (let (new, cache') = generate_scores m smp candidate_list src_dict use_cuda act cache
           in score_batches models candidate_list src_dict use_cuda act rest
                (scores ++ new) cache'))"

text \<open>
  Lines 151 to 155: the results file is written, then the log line divides by the
  stopwatch's sum.
\<close>

definition write_results ::
  "'t env \<Rightarrow> args \<Rightarrow> (nat \<rightharpoonup> 't list) \<Rightarrow> 't process \<Rightarrow> error option \<times> 't process" where
  "write_results env a scores proc =
     (case args_results_path a of
        None \<Rightarrow> (Some (TypeError ''expected str, bytes or os.PathLike object, not NoneType''), proc)
      | Some p \<Rightarrow>
          (if \<not> writable proc p then (Some (OSError p), proc)
           else
             (let proc' = proc\<lparr>files := (files proc)(p \<mapsto> PickleFile scores)\<rparr>
              in if gen_timer_sum env = 0 then (Some ZeroDivisionError, proc')
                 else (None, proc'))))"

text \<open>
  \<open>_main\<close> (lines 68 to 155). An exception ends the run with the process state reached
  so far; \<open>None\<close> is the normal return.
\<close>

definition main_inner :: "'t env \<Rightarrow> args \<Rightarrow> 't process \<Rightarrow> error option \<times> 't process" where
  "main_inner env args0 proc =
     (let a = default_max_tokens args0;
          use_cuda = (cuda_is_available env \<and> \<not> args_cpu a)
      in case setup_task env a of Inl e \<Rightarrow> (Some e, proc) | Inr task0 \<Rightarrow>
         (case load_dataset env task0 (args_gen_subset a) of Inl e \<Rightarrow> (Some e, proc) | Inr task \<Rightarrow>
         (case read_candidates proc (args_list_candidates a) of Inl e \<Rightarrow> (Some e, proc)
          | Inr candidate_list \<Rightarrow>
         (case load_model_ensemble env a task of Inl e \<Rightarrow> (Some e, proc) | Inr models \<Rightarrow>
         (case dataset task (args_gen_subset a) of Inl e \<Rightarrow> (Some e, proc) | Inr ds \<Rightarrow>
         (case call_get_batch_iterator task script_call_keywords
                 (script_call_values env a task ds models) of
            Inl e \<Rightarrow> (Some e, proc) | Inr epoch_itr \<Rightarrow>
         (case next_epoch_itr_unshuffled epoch_itr of Inl e \<Rightarrow> (Some e, proc) | Inr itr \<Rightarrow>
         (case activation env a of Inl e \<Rightarrow> (Some e, proc) | Inr act \<Rightarrow>
         (case ds of OtherObject \<Rightarrow> (Some (AttributeError ''src_dict''), proc)
          | FairseqDataset d \<Rightarrow>
         (case score_batches models candidate_list (src_dict_encode_line d) use_cuda act itr
                 Map.empty (TEXT_CACHE proc) of
            (Some e, scores, cache) \<Rightarrow> (Some e, proc\<lparr>TEXT_CACHE := cache\<rparr>)
          | (None, scores, cache) \<Rightarrow>
              write_results env a scores (proc\<lparr>TEXT_CACHE := cache\<rparr>)))))))))))"

text \<open>\<open>main\<close> (lines 62 to 65): the two assertions, then \<open>_main\<close>.\<close>

definition main :: "'t env \<Rightarrow> args \<Rightarrow> 't process \<Rightarrow> error option \<times> 't process" where
  "main env a proc =
     (if args_path a = None then (Some (AssertionError ''--path required for generation!''), proc)
      else if args_results_path a = None then (Some (AssertionError []), proc)
      else main_inner env a proc)"

text \<open>
  The exit status of the interpreter running \<open>cli_main\<close> (lines 158 to 170): zero when
  \<open>main\<close> returns, one when an exception leaves it.
\<close>

definition exit_status :: "error option \<Rightarrow> nat" where
  "exit_status outcome = (case outcome of None \<Rightarrow> 0 | Some _ \<Rightarrow> 1)"

definition cli_main :: "'t env \<Rightarrow> args \<Rightarrow> 't process \<Rightarrow> nat \<times> 't process" where
  "cli_main env a proc = (let (outcome, proc') = main env a proc in (exit_status outcome, proc'))"

section \<open>Concrete inputs\<close>

text \<open>
  Small inputs on which the definitions are evaluated below: a dataset of \<open>n\<close> examples
  whose sizes are given by a function, a parsed argument list, a dictionary with one loaded
  dataset and one entry that is no dataset, a task of a subclass whose
  \<open>get_batch_iterator\<close> also declares \<open>num_workers\<close> and \<open>data_buffer_size\<close>, a model
  whose text encoder scales by a weight, and a process with a candidate file.
\<close>

definition toy_dataset :: "nat \<Rightarrow> (nat \<Rightarrow> nat) \<Rightarrow> nat fairseq_dataset" where
  "toy_dataset n f =
     \<lparr>ordered_indices = (\<lambda>seed. [0..<n]), size_fn = (\<lambda>i. [f i]), num_tokens = f,
      collater = (\<lambda>b. \<lparr>sample_id = b, net_input = length b\<rparr>),
      src_dict_encode_line = length\<rparr>"

definition toy_args :: args where
  "toy_args =
     \<lparr>args_path = Some ''model.pt'', args_results_path = Some ''scores.pkl'',
      args_max_tokens = None, args_max_sentences = None, args_batch_size = None,
      args_gen_subset = ''test'', args_list_candidates = ''names.txt'',
      args_skip_invalid_size_inputs_valid_test = False,
      args_required_batch_size_multiple = 1, args_seed = 1,
      args_distributed_world_size = 1, args_distributed_rank = 0,
      args_num_workers = 1, args_data_buffer_size = 10, args_cpu = True,
      args_scores_activation_function = None\<rparr>"

definition toy_splits :: "string \<rightharpoonup> nat pyobj" where
  "toy_splits =
     [''test'' \<mapsto> FairseqDataset (toy_dataset 3 (\<lambda>i. 10 * i)), ''broken'' \<mapsto> OtherObject]"

definition toy_task :: "nat task" where
  "toy_task =
     (FairseqTask toy_splits)
       \<lparr>gbi_parameters :=
          get_batch_iterator_parameters @ [''num_workers'', ''data_buffer_size'']\<rparr>"

definition toy_model :: "nat \<Rightarrow> nat model" where
  "toy_model w =
     \<lparr>spch_encoder = (\<lambda>x. x), text_encoder = (\<lambda>x. w * x),
      retrieval_network = (\<lambda>t n s. replicate n (t + s)), model_max_positions = None\<rparr>"

definition toy_env :: "nat \<Rightarrow> nat env" where
  "toy_env w =
     \<lparr>cuda_is_available = False,
      setup_task = (\<lambda>a. Inr (toy_task\<lparr>datasets := Map.empty\<rparr>)),
      load_dataset = (\<lambda>t split. Inr (t\<lparr>datasets := toy_splits\<rparr>)),
      load_model_ensemble = (\<lambda>a t. Inr [toy_model w]),
      resolve_max_positions = (\<lambda>ps. None),
      torch_function = Map.empty,
      gen_timer_sum = 1\<rparr>"

definition toy_process :: "nat process" where
  "toy_process =
     \<lparr>files = [''names.txt'' \<mapsto> TextFile [''alice '', ''bob '']],
      writable = (\<lambda>p. True), TEXT_CACHE = Map.empty\<rparr>"

section \<open>Properties of FairseqTask\<close>

lemmas toy_defs =
  toy_process_def toy_env_def toy_model_def toy_task_def toy_args_def toy_splits_def
  toy_dataset_def

subsection \<open>The split lookup\<close>

text \<open>
  Claim C7, as stated, fails on a loaded split whose stored object is not a
  \<open>FairseqDataset\<close>: the lookup does not return it but raises \<open>TypeError\<close> (lines 38
  and 39).
\<close>

theorem dataset_loaded_not_returned:
  "datasets (FairseqTask toy_splits) ''broken'' = Some OtherObject
   \<and> dataset (FairseqTask toy_splits) ''broken''
       = Inl (TypeError ''Datasets are expected to be of type FairseqDataset'')"
  by (simp add: dataset_def FairseqTask_def toy_splits_def)

text \<open>
  Claim C7, amended: a split that was never loaded fails with the \<open>KeyError\<close> of line 37
  (the spec's \<open>UnknownSplitError\<close>); a loaded split whose object is a \<open>FairseqDataset\<close>
  is returned unchanged; a loaded split whose object is not one fails with \<open>TypeError\<close>.
\<close>

theorem dataset_lookup:
  "(datasets self split = None \<longrightarrow>
      dataset self split = Inl (KeyError (''Dataset not loaded: '' @ split)))
   \<and> (datasets self split = Some (FairseqDataset d) \<longrightarrow>
        dataset self split = Inr (FairseqDataset d))
   \<and> (datasets self split = Some OtherObject \<longrightarrow>
        dataset self split
          = Inl (TypeError ''Datasets are expected to be of type FairseqDataset''))"
  by (simp add: dataset_def)

theorem dataset_lookup_witness:
  "dataset (FairseqTask toy_splits) ''train'' = Inl (KeyError ''Dataset not loaded: train'')
   \<and> dataset (FairseqTask toy_splits) ''test''
       = Inr (FairseqDataset (toy_dataset 3 (\<lambda>i. 10 * i)))
   \<and> dataset (FairseqTask toy_splits) ''broken''
       = Inl (TypeError ''Datasets are expected to be of type FairseqDataset'')"
  using dataset_lookup [of "FairseqTask toy_splits" "''train''"]
    dataset_lookup [of "FairseqTask toy_splits" "''test''" "toy_dataset 3 (\<lambda>i. 10 * i)"]
    dataset_lookup [of "FairseqTask toy_splits" "''broken''"]
  by (simp add: FairseqTask_def toy_splits_def)

subsection \<open>The keywords of the script's call\<close>

text \<open>
  Claim C6: the call of lines 113 to 127 passes \<open>num_workers\<close> and
  \<open>data_buffer_size\<close>, which \<open>FairseqTask.get_batch_iterator\<close> (lines 42 to 46) does
  not declare. On a task of the base class the call raises \<open>TypeError\<close> at
  \<open>num_workers\<close>, whatever the values passed.
\<close>

theorem script_call_rejected:
  "call_get_batch_iterator (FairseqTask loaded) script_call_keywords kw
     = Inl (TypeError ''get_batch_iterator() got an unexpected keyword argument num_workers'')"
  by (simp add: call_get_batch_iterator_def FairseqTask_def bind_keywords_def
      script_call_keywords_def get_batch_iterator_parameters_def)

section \<open>Properties of the scoring script\<close>

lemmas main_defs = main_def main_inner_def default_max_tokens_def read_candidates_def strip_def is_space_def
  dataset_def call_get_batch_iterator_def bind_keywords_def script_call_keywords_def get_batch_iterator_parameters_def
  script_call_values_def FairseqTask_def FairseqTask_get_batch_iterator_def get_batch_iterator_def
  filter_by_size_def batch_by_size_def next_epoch_itr_unshuffled_def shard_partition_def shard_batches_def shard_positions_def
  activation_def generate_scores_def write_results_def

subsection \<open>The default token budget\<close>




subsection \<open>Exit status and the results file\<close>

lemma write_results_done:
  "fst (write_results env a sc proc) = None \<Longrightarrow>
     \<exists>p. args_results_path a = Some p
       \<and> files (snd (write_results env a sc proc)) p = Some (PickleFile sc)"
  by (auto simp: write_results_def Let_def split: option.splits if_splits)


lemma default_max_tokens_results_path:
  "args_results_path (default_max_tokens a) = args_results_path a"
  by (simp add: default_max_tokens_def)

lemma main_inner_cases:
  "(\<exists>e. main_inner env a proc = (Some e, proc))
   \<or> (\<exists>e sc cache. main_inner env a proc = (Some e, proc\<lparr>TEXT_CACHE := cache\<rparr>)
        \<and> (\<exists>ms cl sd uc act itr. score_batches ms cl sd uc act itr Map.empty (TEXT_CACHE proc)
              = (Some e, sc, cache)))
   \<or> (\<exists>sc cache. main_inner env a proc
          = write_results env (default_max_tokens a) sc (proc\<lparr>TEXT_CACHE := cache\<rparr>)
        \<and> (\<exists>ms cl sd uc act itr. score_batches ms cl sd uc act itr Map.empty (TEXT_CACHE proc)
              = (None, sc, cache)))"
  unfolding main_inner_def Let_def
  by (simp split: sum.split pyobj.split prod.split option.split) blast

lemma main_inner_done:
  assumes "fst (main_inner env a proc) = None"
  shows "\<exists>p sc. args_results_path a = Some p
           \<and> files (snd (main_inner env a proc)) p = Some (PickleFile sc)"
proof -
  from main_inner_cases [of env a proc] assms
  obtain sc cache where
    eq: "main_inner env a proc
           = write_results env (default_max_tokens a) sc (proc\<lparr>TEXT_CACHE := cache\<rparr>)"
    by auto
  with assms have
    "fst (write_results env (default_max_tokens a) sc (proc\<lparr>TEXT_CACHE := cache\<rparr>)) = None"
    by simp
  from write_results_done [OF this] show ?thesis
    by (auto simp: eq default_max_tokens_results_path)
qed

text \<open>
  Claim C8: when the checkpoint path or the results path is missing, the run ends with
  exit status one and the process state is untouched (the assertions of lines 63 and 64);
  when \<open>main\<close> returns normally, the exit status is zero and the file at the results
  path holds the pickled scores. The exit status is zero only on a normal return.
\<close>

theorem cli_exit_status:
  "(args_path a = None \<or> args_results_path a = None \<longrightarrow>
      fst (cli_main env a proc) = 1 \<and> snd (cli_main env a proc) = proc)
   \<and> (fst (main env a proc) = None \<longrightarrow>
        fst (cli_main env a proc) = 0
        \<and> (\<exists>p sc. args_results_path a = Some p
              \<and> files (snd (cli_main env a proc)) p = Some (PickleFile sc)))
   \<and> ((fst (cli_main env a proc) = 0) = (fst (main env a proc) = None))"
proof (intro conjI impI)
  assume "args_path a = None \<or> args_results_path a = None"
  then show "fst (cli_main env a proc) = 1" and "snd (cli_main env a proc) = proc"
    by (auto simp: cli_main_def main_def exit_status_def)
next
  assume fin: "fst (main env a proc) = None"
  then show "fst (cli_main env a proc) = 0"
    by (cases "main env a proc") (simp add: cli_main_def exit_status_def)
  from fin have inner: "fst (main_inner env a proc) = None" and
    eq: "main env a proc = main_inner env a proc"
    by (auto simp: main_def split: if_splits)
  from main_inner_done [OF inner] show
    "\<exists>p sc. args_results_path a = Some p
       \<and> files (snd (cli_main env a proc)) p = Some (PickleFile sc)"
    by (cases "main_inner env a proc") (simp add: cli_main_def eq)
next
  show "(fst (cli_main env a proc) = 0) = (fst (main env a proc) = None)"
    by (cases "main env a proc") (simp add: cli_main_def exit_status_def split: option.split)
qed

lemma toy_run_completes: "fst (main (toy_env 2) toy_args toy_process) = None"
  by (simp add: main_defs toy_defs upt_rec Let_def)

theorem cli_exit_status_witness:
  "fst (cli_main (toy_env 2) (toy_args\<lparr>args_path := None\<rparr>) toy_process) = 1
   \<and> fst (cli_main (toy_env 2) (toy_args\<lparr>args_results_path := None\<rparr>) toy_process) = 1
   \<and> fst (main (toy_env 2) toy_args toy_process) = None
   \<and> fst (cli_main (toy_env 2) toy_args toy_process) = 0
   \<and> (\<exists>p sc. args_results_path toy_args = Some p
         \<and> files (snd (cli_main (toy_env 2) toy_args toy_process)) p = Some (PickleFile sc))"
proof -
  have h1: "args_path (toy_args\<lparr>args_path := None\<rparr>) = None"
    and h2: "args_results_path (toy_args\<lparr>args_results_path := None\<rparr>) = None"
    by simp_all
  show ?thesis
    using h1 h2 toy_run_completes
      cli_exit_status [of "toy_args\<lparr>args_path := None\<rparr>" "toy_env 2" toy_process]
      cli_exit_status [of "toy_args\<lparr>args_results_path := None\<rparr>" "toy_env 2" toy_process]
      cli_exit_status [of toy_args "toy_env 2" toy_process]
    by blast
qed

subsection \<open>The cache of text-encoder outputs\<close>















section \<open>Properties of the batching helpers\<close>

subsection \<open>The packer keeps the sequence\<close>


subsection \<open>The size filter\<close>




subsection \<open>The multiple constraint\<close>

lemma length_take_multiple:
  "length (take (m * (length xs div m)) xs) mod m = 0"
proof -
  have "m * (length xs div m) \<le> length xs" by simp
  then have "length (take (m * (length xs div m)) xs) = m * (length xs div m)" by simp
  then show ?thesis by simp
qed

lemma pack_step:
  assumes "0 < m"
  obtains (keep) batch' rmax' where
      "pack sz mt ms m batch rmax (c # cs) = pack sz mt ms m batch' rmax' cs"
    | (emit) batch' rmax' x where "length x mod m = 0"
      "pack sz mt ms m batch rmax (c # cs) = x # pack sz mt ms m batch' rmax' cs"
proof (cases "(exceeds mt (max rmax (sz c) * (length batch + 1))
                \<or> exceeds ms (length batch + 1)) \<and> batch \<noteq> []")
  case False
  then have "pack sz mt ms m batch rmax (c # cs)
               = pack sz mt ms m (batch @ [c]) (max rmax (sz c)) cs"
    by (auto simp: Let_def)
  then show ?thesis by (rule keep)
next
  case full: True
  show ?thesis
  proof (cases "m \<le> 1 \<or> length batch mod m = 0")
    case True
    with assms have "length batch mod m = 0" by (cases "m = 1") auto
    moreover from full True have
      "pack sz mt ms m batch rmax (c # cs) = batch # pack sz mt ms m [c] (sz c) cs"
      by (auto simp: Let_def)
    ultimately show ?thesis by (rule emit)
  next
    case notmult: False
    show ?thesis
    proof (cases "length batch < m")
      case True
      with full notmult have "pack sz mt ms m batch rmax (c # cs)
               = pack sz mt ms m (batch @ [c]) (max rmax (sz c)) cs"
        by (auto simp: Let_def)
      then show ?thesis by (rule keep)
    next
      case False
      with full notmult have "pack sz mt ms m batch rmax (c # cs)
          = take (m * (length batch div m)) batch
            # pack sz mt ms m (drop (m * (length batch div m)) batch @ [c])
                (max (max_size sz (drop (m * (length batch div m)) batch)) (sz c)) cs"
        by (auto simp: Let_def)
      with length_take_multiple [of m batch] show ?thesis by (rule emit)
    qed
  qed
qed

lemma pack_multiple:
  "0 < m \<Longrightarrow> b \<in> set (butlast (pack sz mt ms m batch rmax cs)) \<Longrightarrow> length b mod m = 0"
proof (induction cs arbitrary: batch rmax)
  case Nil
  then show ?case by (simp split: if_splits)
next
  case (Cons c cs)
  show ?case
  proof (rule pack_step [OF Cons.prems(1), of sz mt ms batch rmax c cs])
    fix batch' rmax'
    assume "pack sz mt ms m batch rmax (c # cs) = pack sz mt ms m batch' rmax' cs"
    with Cons.prems Cons.IH [of batch' rmax'] show ?thesis by simp
  next
    fix batch' rmax' x
    assume x: "length x mod m = 0"
      and eq: "pack sz mt ms m batch rmax (c # cs) = x # pack sz mt ms m batch' rmax' cs"
    have "b = x \<or> b \<in> set (butlast (pack sz mt ms m batch' rmax' cs))"
      using Cons.prems(2) unfolding eq by (auto split: if_splits)
    with x Cons.IH [OF Cons.prems(1), of batch' rmax'] show ?thesis by auto
  qed
qed

text \<open>
  Claim C5: for a required multiple of at least one, every batch the packer produces,
  except possibly the last of the scan, has a length that is a multiple of it.
\<close>

theorem batch_lengths_multiple:
  "0 < required_batch_size_multiple \<Longrightarrow>
   b \<in> set (butlast (batch_by_size indices num_tokens_fn max_tokens max_sentences
                      required_batch_size_multiple)) \<Longrightarrow>
   length b mod required_batch_size_multiple = 0"
  unfolding batch_by_size_def by (rule pack_multiple)

theorem batch_lengths_multiple_witness:
  "(0::nat) < 2
   \<and> [2, 3] \<in> set (butlast (batch_by_size [0, 1, 2, 3, 4, 5, 6] (\<lambda>i. 1) None (Some 3) 2))
   \<and> batch_by_size [0, 1, 2, 3, 4, 5, 6] (\<lambda>i. 1) None (Some 3) 2 = [[0, 1], [2, 3], [4, 5, 6]]
   \<and> length [2::nat, 3] mod 2 = 0"
proof -
  have ev: "batch_by_size [0, 1, 2, 3, 4, 5, 6] (\<lambda>i. 1) None (Some 3) 2
              = [[0, 1], [2, 3], [4, 5, 6]]"
    by (simp add: batch_by_size_def Let_def)
  have h1: "(0::nat) < 2" by simp
  have h2: "[2, 3] \<in> set (butlast (batch_by_size [0, 1, 2, 3, 4, 5, 6] (\<lambda>i. 1) None (Some 3) 2))"
    unfolding ev by simp
  from batch_lengths_multiple [OF h1 h2] h1 h2 ev show ?thesis by blast
qed

subsection \<open>The budgets\<close>

lemma max_size_append: "max_size sz (xs @ ys) = max (max_size sz xs) (max_size sz ys)"
  by (induction xs) auto

lemma max_size_take_le: "max_size sz (take k xs) \<le> max_size sz xs"
proof (induction xs arbitrary: k)
  case Nil
  show ?case by simp
next
  case (Cons x xs)
  show ?case using Cons.IH [of "k - 1"] by (cases k) (auto simp: max.coboundedI2)
qed

lemma token_cost_take_le: "token_cost sz (take k xs) \<le> token_cost sz xs"
  unfolding token_cost_def by (intro mult_le_mono max_size_take_le) simp

lemma exceeds_mono: "exceeds bound v \<Longrightarrow> v \<le> v' \<Longrightarrow> exceeds bound v'"
  by (cases bound) auto

lemma over_budget_take:
  "over_budget sz mt ms (take k xs) \<Longrightarrow> over_budget sz mt ms xs"
  unfolding over_budget_def
  using exceeds_mono [of mt "token_cost sz (take k xs)" "token_cost sz xs"]
    exceeds_mono [of ms "length (take k xs)" "length xs"] token_cost_take_le [of sz k xs]
  by auto

lemma pack_budgets:
  assumes "rmax = max_size sz batch"
    and "over_budget sz mt ms batch \<longrightarrow> length batch \<le> max 1 m"
    and "b \<in> set (pack sz mt ms m batch rmax cs)"
  shows "b \<noteq> [] \<and> (over_budget sz mt ms b \<longrightarrow> length b \<le> max 1 m)"
  using assms
proof (induction cs arbitrary: batch rmax)
  case Nil
  then show ?case by (auto split: if_splits)
next
  case (Cons c cs)
  let ?full = "exceeds mt (max rmax (sz c) * (length batch + 1))
                 \<or> exceeds ms (length batch + 1)"
  have cost: "token_cost sz (batch @ [c]) = max rmax (sz c) * (length batch + 1)"
    by (simp add: token_cost_def max_size_append Cons.prems(1))
  have full_iff: "?full = over_budget sz mt ms (batch @ [c])"
    by (simp add: over_budget_def cost)
  have rmax': "max rmax (sz c) = max_size sz (batch @ [c])"
    by (simp add: max_size_append Cons.prems(1))
  show ?case
  proof (cases "?full \<and> batch \<noteq> []")
    case False
    then have eq: "pack sz mt ms m batch rmax (c # cs)
               = pack sz mt ms m (batch @ [c]) (max rmax (sz c)) cs"
      by (auto simp: Let_def)
    have ok: "over_budget sz mt ms (batch @ [c]) \<longrightarrow> length (batch @ [c]) \<le> max 1 m"
      using False full_iff by auto
    from Cons.IH [OF rmax' ok] Cons.prems(3) show ?thesis
      unfolding eq by simp
  next
    case full: True
    show ?thesis
    proof (cases "m \<le> 1 \<or> length batch mod m = 0")
      case True
      with full have eq:
        "pack sz mt ms m batch rmax (c # cs) = batch # pack sz mt ms m [c] (sz c) cs"
        by (auto simp: Let_def)
      have r1: "sz c = max_size sz [c]" by simp
      have ok: "over_budget sz mt ms [c] \<longrightarrow> length [c] \<le> max 1 m" by simp
      from Cons.prems(3) have "b = batch \<or> b \<in> set (pack sz mt ms m [c] (sz c) cs)"
        unfolding eq by simp
      with Cons.IH [OF r1 ok] Cons.prems(2) full show ?thesis by auto
    next
      case notmult: False
      show ?thesis
      proof (cases "length batch < m")
        case True
        with full notmult have eq: "pack sz mt ms m batch rmax (c # cs)
               = pack sz mt ms m (batch @ [c]) (max rmax (sz c)) cs"
          by (auto simp: Let_def)
        have ok: "over_budget sz mt ms (batch @ [c]) \<longrightarrow> length (batch @ [c]) \<le> max 1 m"
          using True by simp
        from Cons.IH [OF rmax' ok] Cons.prems(3) show ?thesis
          unfolding eq by simp
      next
        case False
        define k where "k = m * (length batch div m)"
        from full notmult False have eq: "pack sz mt ms m batch rmax (c # cs)
            = take k batch
              # pack sz mt ms m (drop k batch @ [c]) (max (max_size sz (drop k batch)) (sz c)) cs"
          by (auto simp: Let_def k_def)
        from notmult False have m: "1 < m" "m < length batch"
          by (cases "m = length batch"; auto)+
        have k_le: "k \<le> length batch" by (simp add: k_def)
        have k_pos: "0 < k"
          using m by (simp add: k_def div_greater_zero_iff)
        have len_drop: "length (drop k batch) = length batch mod m"
          by (simp add: k_def minus_mult_div_eq_mod)
        have r2: "max (max_size sz (drop k batch)) (sz c) = max_size sz (drop k batch @ [c])"
          by (simp add: max_size_append)
        have ok2: "over_budget sz mt ms (drop k batch @ [c])
                     \<longrightarrow> length (drop k batch @ [c]) \<le> max 1 m"
        proof -
          have "length batch mod m < m" using m by simp
          then have "Suc (length batch mod m) \<le> m" by simp
          then show ?thesis using len_drop by simp
        qed
        have batch_ok: "\<not> over_budget sz mt ms batch"
          using Cons.prems(2) m by auto
        have take_ok: "take k batch \<noteq> [] \<and> \<not> over_budget sz mt ms (take k batch)"
          using over_budget_take [of sz mt ms k batch] batch_ok k_pos full by auto
        from Cons.prems(3) have
          "b = take k batch \<or> b \<in> set (pack sz mt ms m (drop k batch @ [c])
                (max (max_size sz (drop k batch)) (sz c)) cs)"
          unfolding eq by simp
        with Cons.IH [OF r2 ok2] take_ok show ?thesis by auto
      qed
    qed
  qed
qed

text \<open>
  Claim C1, amended: every batch the packer produces is non-empty, and a batch that is
  over a budget that is set (its token cost, the largest size in it times its length, is
  above \<open>max_tokens\<close>, or its length is above \<open>max_sentences\<close>) has at most
  \<open>max 1 required_batch_size_multiple\<close> examples. With the default multiple of one,
  only a batch of a single example can be over a budget.
\<close>

theorem batches_over_budget_are_short:
  "b \<in> set (batch_by_size indices num_tokens_fn max_tokens max_sentences
              required_batch_size_multiple) \<Longrightarrow>
   b \<noteq> []
   \<and> (over_budget num_tokens_fn max_tokens max_sentences b
        \<longrightarrow> length b \<le> max 1 required_batch_size_multiple)"
  unfolding batch_by_size_def by (rule pack_budgets) simp_all

theorem batches_over_budget_are_short_witness:
  "[0] \<in> set (batch_by_size [0] (\<lambda>i. 5) (Some 3) None 1)
   \<and> over_budget (\<lambda>i. 5) (Some 3) None [0]
   \<and> [0::nat] \<noteq> []
   \<and> length [0::nat] \<le> max 1 1"
proof -
  have h1: "[0] \<in> set (batch_by_size [0] (\<lambda>i. 5) (Some 3) None 1)"
    by (simp add: batch_by_size_def Let_def)
  have h2: "over_budget (\<lambda>i. 5) (Some 3) None [0]"
    by (simp add: over_budget_def token_cost_def)
  from batches_over_budget_are_short [OF h1] h1 h2 show ?thesis by simp
qed

text \<open>
  Claim C1, as stated, fails. A single example of size 5 under \<open>max_tokens = 3\<close> forms
  a batch of its own, of cost 5 (the edge case of spec 4.2), also through
  \<open>get_batch_iterator\<close>. Under a required multiple of 2, two examples of size 2 stay in
  one batch of cost 4 under \<open>max_tokens = 3\<close>, and two examples stay in one batch under
  \<open>max_sentences = 1\<close>, since no batch is closed below the multiple.
\<close>

theorem budgets_exceeded:
  "batch_by_size [0] (\<lambda>i. 5) (Some 3) None 1 = [[0]]
   \<and> 3 < token_cost (\<lambda>i. 5) [0]
   \<and> map_sum id frozen_batches
        (get_batch_iterator (FairseqDataset (toy_dataset 1 (\<lambda>i. 5))) (Some 3) None None False
           1 1 1 0) = Inr [[0]]
   \<and> batch_by_size [0, 1] (\<lambda>i. 2) (Some 3) None 2 = [[0, 1]]
   \<and> 3 < token_cost (\<lambda>i. 2) [0, 1]
   \<and> batch_by_size [0, 1] (\<lambda>i. 2) None (Some 1) 2 = [[0, 1]]
   \<and> 1 < length [0::nat, 1]"
  by (simp add: batch_by_size_def token_cost_def Let_def get_batch_iterator_def
      filter_by_size_def toy_dataset_def)

text \<open>
  The scenario of the spec's testable properties: ten examples of size one under
  \<open>max_sentences = 3\<close> give batches of sizes 3, 3, 3 and 1.
\<close>

lemma batch_by_size_scenario:
  "batch_by_size [0, 1, 2, 3, 4, 5, 6, 7, 8, 9] (\<lambda>i. 1) None (Some 3) 1
     = [[0, 1, 2], [3, 4, 5], [6, 7, 8], [9]]"
  by (simp add: batch_by_size_def Let_def)

end
